theory Spec2Isabelle
  imports Complex_Main "HOL-Library.Sublist" "HOL-Library.Word"
begin

unbundle bit_operations_syntax

section \<open>Python values used by Athena\<close>

subsection \<open>Strings\<close>

text \<open>
  A Python \<open>str\<close> is a sequence of Unicode code points: \<open>len\<close>, slicing and
  \<open>strip\<close> all count code points, so a string is a list of code points here.
  \<open>ascii\<close> writes a literal.
\<close>

type_synonym pystr = "nat list"

definition ascii :: "string \<Rightarrow> pystr" where
  "ascii s = map of_char s"

text \<open>
  \<open>str.isspace\<close>, which is also what \<open>str.strip()\<close> and the regular expression
  class \<open>\s\<close> test on \<open>str\<close> patterns: the code points CPython's
  \<open>Py_UNICODE_ISSPACE\<close> accepts.
\<close>

definition isspace :: "nat \<Rightarrow> bool" where
  "isspace c =
     ((9 \<le> c \<and> c \<le> 13) \<or> (28 \<le> c \<and> c \<le> 32) \<or> c = 133 \<or> c = 160 \<or> c = 5760 \<or>
      (8192 \<le> c \<and> c \<le> 8202) \<or> c = 8232 \<or> c = 8233 \<or> c = 8239 \<or> c = 8287 \<or>
      c = 12288)"

definition str_strip :: "pystr \<Rightarrow> pystr" where
  "str_strip s = rev (dropWhile isspace (rev (dropWhile isspace s)))"

text \<open>\<open>sep.join(parts)\<close> on a list of strings.\<close>

fun str_join :: "pystr \<Rightarrow> pystr list \<Rightarrow> pystr" where
  "str_join sep [] = []"
| "str_join sep [x] = x"
| "str_join sep (x # y # ys) = x @ sep @ str_join sep (y # ys)"

text \<open>\<open>str(n)\<close> for an integer: its decimal digits.\<close>

function str_nat :: "nat \<Rightarrow> pystr" where
  "str_nat n = (if n < 10 then [48 + n] else str_nat (n div 10) @ [48 + n mod 10])"
  by pat_completeness auto
termination
  by (relation "measure id") auto

declare str_nat.simps [simp del]

definition str_int :: "int \<Rightarrow> pystr" where
  "str_int i = (if i < 0 then 45 # str_nat (nat (- i)) else str_nat (nat i))"

text \<open>
  \<open>str.lower()\<close> follows the Unicode case tables and is taken as a parameter of every
  function that calls it. On ASCII strings it is \<open>ascii_lower\<close>.
\<close>

definition ascii_lower :: "pystr \<Rightarrow> pystr" where
  "ascii_lower s = map (\<lambda>c. if 65 \<le> c \<and> c \<le> 90 then c + 32 else c) s"

subsection \<open>Exceptions\<close>

text \<open>
  The exception classes the handlers of the sources tell apart. \<open>ConnectTimeout\<close> is
  the class of \<open>requests\<close> that derives from both \<open>ConnectionError\<close> and
  \<open>Timeout\<close>. An exception carries \<open>str(e)\<close>.
\<close>

datatype exn_class =
  ConnectionError | Timeout | ConnectTimeout | JSONDecodeError | AttributeError
  | TypeError | UnicodeEncodeError | UnicodeDecodeError | OtherError

datatype exn = Exn exn_class pystr

fun exn_str :: "exn \<Rightarrow> pystr" where
  "exn_str (Exn c m) = m"

fun is_ConnectionError :: "exn \<Rightarrow> bool" where
  "is_ConnectionError (Exn c m) = (c = ConnectionError \<or> c = ConnectTimeout)"

fun is_Timeout :: "exn \<Rightarrow> bool" where
  "is_Timeout (Exn c m) = (c = Timeout \<or> c = ConnectTimeout)"

fun is_JSONDecodeError :: "exn \<Rightarrow> bool" where
  "is_JSONDecodeError (Exn c m) = (c = JSONDecodeError)"

fun is_AttributeError :: "exn \<Rightarrow> bool" where
  "is_AttributeError (Exn c m) = (c = AttributeError)"

subsection \<open>Decoded JSON\<close>

text \<open>
  What \<open>json.loads\<close> returns. A dictionary is an association list with distinct keys,
  read with \<open>map_of\<close>. Floats are the finite ones.
\<close>

datatype json =
  JNull | JBool bool | JInt int | JFloat rat | JStr pystr | JList "json list"
  | JDict "(pystr \<times> json) list"

text \<open>Python's truth test, as \<open>if token:\<close> applies it.\<close>

fun truthy :: "json \<Rightarrow> bool" where
  "truthy JNull = False"
| "truthy (JBool b) = b"
| "truthy (JInt i) = (i \<noteq> 0)"
| "truthy (JFloat r) = (r \<noteq> 0)"
| "truthy (JStr s) = (s \<noteq> [])"
| "truthy (JList xs) = (xs \<noteq> [])"
| "truthy (JDict kvs) = (kvs \<noteq> [])"

fun type_name :: "json \<Rightarrow> pystr" where
  "type_name JNull = ascii ''NoneType''"
| "type_name (JBool b) = ascii ''bool''"
| "type_name (JInt i) = ascii ''int''"
| "type_name (JFloat r) = ascii ''float''"
| "type_name (JStr s) = ascii ''str''"
| "type_name (JList xs) = ascii ''list''"
| "type_name (JDict kvs) = ascii ''dict''"

text \<open>
  \<open>data.get(key, default)\<close>: only a dictionary has the method; on any other value
  Python raises \<open>AttributeError\<close>.
\<close>

fun dict_get :: "json \<Rightarrow> pystr \<Rightarrow> json \<Rightarrow> exn + json" where
  "dict_get (JDict kvs) k dflt = Inr (case map_of kvs k of None \<Rightarrow> dflt | Some v \<Rightarrow> v)"
| "dict_get v k dflt =
     Inl (Exn AttributeError
       ([39] @ type_name v @ [39] @ ascii '' object has no attribute '' @ [39] @ ascii ''get'' @ [39]))"

text \<open>
  \<open>"".join(parts)\<close> on a list of values: the concatenation when every item is a
  string, \<open>TypeError\<close> at the first item that is not.
\<close>

fun join_from :: "nat \<Rightarrow> json list \<Rightarrow> exn + pystr" where
  "join_from i [] = Inr []"
| "join_from i (JStr s # xs) =
     (case join_from (Suc i) xs of Inl e \<Rightarrow> Inl e | Inr r \<Rightarrow> Inr (s @ r))"
| "join_from i (x # xs) =
     Inl (Exn TypeError
       (ascii ''sequence item '' @ str_nat i @ ascii '': expected str instance, '' @ type_name x
        @ ascii '' found''))"

definition join_empty :: "json list \<Rightarrow> exn + pystr" where
  "join_empty parts = join_from 0 parts"

subsection \<open>UTF-8 and MD5\<close>

text \<open>
  \<open>s.encode()\<close>: UTF-8. A surrogate code point cannot be encoded and raises
  \<open>UnicodeEncodeError\<close> (a code point above U+10FFFF is no character of a Python string;
  it is refused the same way). The message is abbreviated.
\<close>

type_synonym byte = "8 word"

definition utf8_char :: "nat \<Rightarrow> byte list option" where
  "utf8_char c =
     (if c < 128 then Some [of_nat c]
      else if c < 2048 then Some [of_nat (192 + c div 64), of_nat (128 + c mod 64)]
      else if 55296 \<le> c \<and> c \<le> 57343 then None
      else if c < 65536 then
        Some [of_nat (224 + c div 4096), of_nat (128 + (c div 64) mod 64), of_nat (128 + c mod 64)]
      else if c < 1114112 then
        Some [of_nat (240 + c div 262144), of_nat (128 + (c div 4096) mod 64),
              of_nat (128 + (c div 64) mod 64), of_nat (128 + c mod 64)]
      else None)"

fun encode :: "pystr \<Rightarrow> exn + byte list" where
  "encode [] = Inr []"
| "encode (c # cs) =
     (case utf8_char c of
        None \<Rightarrow> Inl (Exn UnicodeEncodeError (ascii ''surrogates not allowed''))
      | Some bs \<Rightarrow> (case encode cs of Inl e \<Rightarrow> Inl e | Inr r \<Rightarrow> Inr (bs @ r)))"

text \<open>\<open>hashlib.md5(data).hexdigest()\<close>, after RFC 1321.\<close>

definition md5_shifts :: "nat list" where
  "md5_shifts =
     [7, 12, 17, 22, 7, 12, 17, 22, 7, 12, 17, 22, 7, 12, 17, 22,
      5, 9, 14, 20, 5, 9, 14, 20, 5, 9, 14, 20, 5, 9, 14, 20,
      4, 11, 16, 23, 4, 11, 16, 23, 4, 11, 16, 23, 4, 11, 16, 23,
      6, 10, 15, 21, 6, 10, 15, 21, 6, 10, 15, 21, 6, 10, 15, 21]"

definition md5_sines :: "32 word list" where
  "md5_sines =
     [0xd76aa478, 0xe8c7b756, 0x242070db, 0xc1bdceee, 0xf57c0faf, 0x4787c62a, 0xa8304613, 0xfd469501,
      0x698098d8, 0x8b44f7af, 0xffff5bb1, 0x895cd7be, 0x6b901122, 0xfd987193, 0xa679438e, 0x49b40821,
      0xf61e2562, 0xc040b340, 0x265e5a51, 0xe9b6c7aa, 0xd62f105d, 0x02441453, 0xd8a1e681, 0xe7d3fbc8,
      0x21e1cde6, 0xc33707d6, 0xf4d50d87, 0x455a14ed, 0xa9e3e905, 0xfcefa3f8, 0x676f02d9, 0x8d2a4c8a,
      0xfffa3942, 0x8771f681, 0x6d9d6122, 0xfde5380c, 0xa4beea44, 0x4bdecfa9, 0xf6bb4b60, 0xbebfbc70,
      0x289b7ec6, 0xeaa127fa, 0xd4ef3085, 0x04881d05, 0xd9d4d039, 0xe6db99e5, 0x1fa27cf8, 0xc4ac5665,
      0xf4292244, 0x432aff97, 0xab9423a7, 0xfc93a039, 0x655b59c3, 0x8f0ccc92, 0xffeff47d, 0x85845dd1,
      0x6fa87e4f, 0xfe2ce6e0, 0xa3014314, 0x4e0811a1, 0xf7537e82, 0xbd3af235, 0x2ad7d2bb, 0xeb86d391]"

fun le_bytes :: "nat \<Rightarrow> nat \<Rightarrow> byte list" where
  "le_bytes 0 n = []"
| "le_bytes (Suc k) n = of_nat (n mod 256) # le_bytes k (n div 256)"

definition md5_pad :: "byte list \<Rightarrow> byte list" where
  "md5_pad bs =
     bs @ [128] @ replicate (nat ((55 - int (length bs)) mod 64)) 0 @ le_bytes 8 (8 * length bs)"

definition le_word :: "byte list \<Rightarrow> 32 word" where
  "le_word bs = of_nat (foldr (\<lambda>b acc. unat b + 256 * acc) bs 0)"

definition md5_words :: "byte list \<Rightarrow> 32 word list" where
  "md5_words block = map (\<lambda>i. le_word (take 4 (drop (4 * i) block))) [0..<16]"

type_synonym md5_state = "32 word \<times> 32 word \<times> 32 word \<times> 32 word"

definition md5_step :: "32 word list \<Rightarrow> md5_state \<Rightarrow> nat \<Rightarrow> md5_state" where
  "md5_step m st i =
     (case st of (a, b, c, d) \<Rightarrow>
        let (f, g) =
              (if i < 16 then ((b AND c) OR (NOT b AND d), i)
               else if i < 32 then ((d AND b) OR (NOT d AND c), (5 * i + 1) mod 16)
               else if i < 48 then (b XOR c XOR d, (3 * i + 5) mod 16)
               else (c XOR (b OR NOT d), (7 * i) mod 16));
            f' = f + a + md5_sines ! i + m ! g
        in (d, b + word_rotl (md5_shifts ! i) f', b, c))"

definition md5_block :: "md5_state \<Rightarrow> byte list \<Rightarrow> md5_state" where
  "md5_block st block =
     (case st of (a0, b0, c0, d0) \<Rightarrow>
        (case foldl (md5_step (md5_words block)) st [0..<64] of (a, b, c, d) \<Rightarrow>
           (a0 + a, b0 + b, c0 + c, d0 + d)))"

fun md5_blocks :: "nat \<Rightarrow> md5_state \<Rightarrow> byte list \<Rightarrow> md5_state" where
  "md5_blocks 0 st bs = st"
| "md5_blocks (Suc n) st bs = md5_blocks n (md5_block st (take 64 bs)) (drop 64 bs)"

definition hex_digit :: "nat \<Rightarrow> nat" where
  "hex_digit n = (if n < 10 then 48 + n else 87 + n)"

definition hex_byte :: "byte \<Rightarrow> pystr" where
  "hex_byte b = [hex_digit (unat b div 16), hex_digit (unat b mod 16)]"

definition md5_hexdigest :: "byte list \<Rightarrow> pystr" where
  "md5_hexdigest bs =
     (let padded = md5_pad bs
      in case md5_blocks (length padded div 64) (0x67452301, 0xefcdab89, 0x98badcfe, 0x10325476) padded
         of (a, b, c, d) \<Rightarrow>
           concat (map hex_byte (concat (map (\<lambda>w. le_bytes 4 (unat w)) [a, b, c, d]))))"

section \<open>The inference backend\<close>

text \<open>
  \<open>requests.post(url, json=payload, timeout=60, stream=True)\<close> either raises or returns
  a response. Of a response the sources read \<open>status_code\<close>, \<open>text\<close> and
  \<open>iter_lines()\<close>. A line of the body is represented by what the code observes of it:
  whether it is empty, and what \<open>json.loads\<close> does with it (the decoded value, or the
  exception it raises: \<open>JSONDecodeError\<close> for malformed JSON, another class for bytes
  that are not valid UTF-8). The iteration over the lines ends normally or, when the
  connection fails in mid-stream, by raising \<open>iter_error\<close>.
\<close>

datatype line = EmptyLine | Payload "exn + json"

record response =
  status_code :: int
  body_text :: pystr
  iter_lines :: "line list"
  iter_error :: "exn option"

record request =
  url :: pystr
  payload_model :: pystr
  payload_prompt :: pystr
  payload_stream :: bool
  option_temperature :: rat
  option_num_predict :: int
  option_num_ctx :: int
  payload_keep_alive :: pystr
  timeout_seconds :: int
  stream_kw :: bool

type_synonym backend = "request \<Rightarrow> exn + response"

section \<open>chat_engine.py\<close>

record turn =
  timestamp :: nat
  user :: pystr
  assistant :: pystr

text \<open>The fields of an \<open>AthenaChat\<close> object.\<close>

record athena_chat =
  model :: pystr
  temperature :: rat
  chat_history :: "turn list"
  ollama_url :: pystr
  pdf_context :: "pystr option"
  response_cache :: "pystr \<rightharpoonup> pystr"

text \<open>
  What a call reads from outside the object: \<open>str.lower\<close>, the clock
  (\<open>datetime.now()\<close>) and the backend behind \<open>requests.post\<close>.
\<close>

record env =
  str_lower :: "pystr \<Rightarrow> pystr"
  datetime_now :: nat
  requests_post :: backend

definition init_chat :: "pystr \<Rightarrow> rat \<Rightarrow> athena_chat" where
  "init_chat m t =
     \<lparr>model = m, temperature = t, chat_history = [],
      ollama_url = ascii ''http://localhost:11434/api/generate'',
      pdf_context = None, response_cache = Map.empty\<rparr>"

definition set_pdf_context :: "athena_chat \<Rightarrow> pystr \<Rightarrow> athena_chat" where
  "set_pdf_context s pdf_text = s\<lparr>pdf_context := Some pdf_text, response_cache := Map.empty\<rparr>"

definition clear_history :: "athena_chat \<Rightarrow> athena_chat" where
  "clear_history s = s\<lparr>chat_history := [], response_cache := Map.empty\<rparr>"

definition clear_pdf_context :: "athena_chat \<Rightarrow> athena_chat" where
  "clear_pdf_context s = s\<lparr>pdf_context := None, response_cache := Map.empty\<rparr>"


text \<open>\<open>self.pdf_context or ""\<close>.\<close>

definition context_or_empty :: "pystr option \<Rightarrow> pystr" where
  "context_or_empty c = (case c of None \<Rightarrow> [] | Some x \<Rightarrow> if x = [] then [] else x)"

text \<open>\<open>hashlib.md5(s.encode()).hexdigest()\<close>.\<close>

definition md5_hex :: "pystr \<Rightarrow> exn + pystr" where
  "md5_hex s = (case encode s of Inl e \<Rightarrow> Inl e | Inr bs \<Rightarrow> Inr (md5_hexdigest bs))"

definition get_cache_key :: "(pystr \<Rightarrow> pystr) \<Rightarrow> pystr option \<Rightarrow> pystr \<Rightarrow> exn + pystr" where
  "get_cache_key lower ctx user_message =
     (case md5_hex (take 1000 (context_or_empty ctx)) of
        Inl e \<Rightarrow> Inl e
      | Inr digest \<Rightarrow>
          (let context_hash = take 8 digest in
           case md5_hex (str_strip (lower user_message)) of
             Inl e \<Rightarrow> Inl e
           | Inr msg_hash \<Rightarrow> Inr (context_hash @ ascii ''_'' @ msg_hash)))"

definition exchange_lines :: "turn \<Rightarrow> pystr list" where
  "exchange_lines x = [ascii ''User: '' @ user x, ascii ''Athena: '' @ assistant x]"

definition build_context :: "athena_chat \<Rightarrow> pystr" where
  "build_context s =
     (if chat_history s = [] then ascii ''This is the start of the conversation.''
      else
        (let recent = drop (length (chat_history s) - 3) (chat_history s)
         in str_join [10] (ascii ''Previous conversation:'' # concat (map exchange_lines recent))))"

definition chat_prompt :: "athena_chat \<Rightarrow> pystr \<Rightarrow> pystr" where
  "chat_prompt s user_message =
     (let ctx = build_context s in
      case pdf_context s of
        Some doc \<Rightarrow>
          (if doc \<noteq> [] then
             ascii ''You are Athena, an AI research assistant.'' @ [10, 10] @ ascii ''DOCUMENT:'' @ [10]
             @ take 1500 doc @ [10, 10] @ ctx @ [10, 10] @ ascii ''User: '' @ user_message @ [10]
             @ ascii ''Athena:''
           else
             ascii ''You are Athena, an AI research assistant. You're knowledgeable, helpful, and professional.''
             @ [10, 10] @ ctx @ [10, 10] @ ascii ''User: '' @ user_message @ [10] @ ascii ''Athena:'')
      | None \<Rightarrow>
          ascii ''You are Athena, an AI research assistant. You're knowledgeable, helpful, and professional.''
          @ [10, 10] @ ctx @ [10, 10] @ ascii ''User: '' @ user_message @ [10] @ ascii ''Athena:'')"

definition chat_request :: "athena_chat \<Rightarrow> pystr \<Rightarrow> request" where
  "chat_request s user_message =
     \<lparr>url = ollama_url s, payload_model = model s, payload_prompt = chat_prompt s user_message,
      payload_stream = True, option_temperature = temperature s, option_num_predict = 250,
      option_num_ctx = 2048, payload_keep_alive = ascii ''10m'', timeout_seconds = 60,
      stream_kw = True\<rparr>"

text \<open>
  The loop over \<open>response.iter_lines()\<close> in \<open>chat_stream\<close>. It returns
  \<open>full_response\<close>, which is also the list of the tokens yielded, and the exception
  that left the loop, if one did. Only \<open>json.JSONDecodeError\<close> is caught inside.
\<close>

fun chat_consume :: "line list \<Rightarrow> exn option \<Rightarrow> json list \<times> exn option" where
  "chat_consume [] tail = ([], tail)"
| "chat_consume (EmptyLine # ls) tail = chat_consume ls tail"
| "chat_consume (Payload (Inl e) # ls) tail =
     (if is_JSONDecodeError e then chat_consume ls tail else ([], Some e))"
| "chat_consume (Payload (Inr data) # ls) tail =
     (case dict_get data (ascii ''response'') (JStr []) of
        Inl e \<Rightarrow> ([], Some e)
      | Inr token \<Rightarrow>
          (let ys = (if truthy token then [token] else []) in
           case dict_get data (ascii ''done'') (JBool False) of
             Inl e \<Rightarrow> (ys, Some e)
           | Inr d \<Rightarrow>
               if truthy d then (ys, None)
               else (case chat_consume ls tail of (r, x) \<Rightarrow> (ys @ r, x))))"

definition chat_connect_message :: pystr where
  "chat_connect_message =
     [10060] @ ascii '' Could not connect to Ollama. Make sure it's running: '' @ [96]
     @ ascii ''ollama serve'' @ [96]"

definition chat_timeout_message :: pystr where
  "chat_timeout_message =
     [10060] @ ascii '' Request timed out. The model is taking too long to respond.''"

definition chat_error_prefix :: pystr where
  "chat_error_prefix = [10060] @ ascii '' Error: ''"

text \<open>The three \<open>except\<close> clauses of \<open>chat_stream\<close>, in their order.\<close>

definition chat_except :: "exn \<Rightarrow> pystr" where
  "chat_except e =
     (if is_ConnectionError e then chat_connect_message
      else if is_Timeout e then chat_timeout_message
      else chat_error_prefix @ exn_str e)"

text \<open>
  A generator run to its end: the values it yielded, the exception it raised past its
  caller (if any) and the object afterwards.
\<close>

record outcome =
  yielded :: "json list"
  raised :: "exn option"
  final :: athena_chat

definition chat_stream :: "env \<Rightarrow> athena_chat \<Rightarrow> pystr \<Rightarrow> outcome" where
  "chat_stream w s user_message =
     (case get_cache_key (str_lower w) (pdf_context s) user_message of
        Inl e \<Rightarrow> \<lparr>yielded = [], raised = Some e, final = s\<rparr>
      | Inr cache_key \<Rightarrow>
          (case response_cache s cache_key of
             Some cached \<Rightarrow> \<lparr>yielded = [JStr cached], raised = None, final = s\<rparr>
           | None \<Rightarrow>
               (case requests_post w (chat_request s user_message) of
                  Inl e \<Rightarrow> \<lparr>yielded = [JStr (chat_except e)], raised = None, final = s\<rparr>
                | Inr resp \<Rightarrow>
                    if status_code resp \<noteq> 200 then
                      \<lparr>yielded = [JStr (chat_error_prefix @ str_int (status_code resp))],
                       raised = None, final = s\<rparr>
                    else
                      (case chat_consume (iter_lines resp) (iter_error resp) of
                         (full_response, Some e) \<Rightarrow>
                           \<lparr>yielded = full_response @ [JStr (chat_except e)], raised = None,
                            final = s\<rparr>
                       | (full_response, None) \<Rightarrow>
                           (case join_empty full_response of
                              Inl e \<Rightarrow>
                                \<lparr>yielded = full_response @ [JStr (chat_except e)], raised = None,
                                 final = s\<rparr>
                            | Inr joined \<Rightarrow>
                                (let assistant_message = str_strip joined in
                                 if assistant_message \<noteq> [] then
                                   \<lparr>yielded = full_response, raised = None,
                                    final = s
                                      \<lparr>chat_history := chat_history s @
                                         [\<lparr>timestamp = datetime_now w, user = user_message,
                                           assistant = assistant_message\<rparr>],
                                       response_cache :=
                                         (response_cache s)(cache_key \<mapsto> assistant_message)\<rparr>\<rparr>
                                 else \<lparr>yielded = full_response, raised = None, final = s\<rparr>))))))"

text \<open>\<open>chat\<close>: the value returned or the exception raised, and the object afterwards.\<close>

definition chat :: "env \<Rightarrow> athena_chat \<Rightarrow> pystr \<Rightarrow> (exn + pystr) \<times> athena_chat" where
  "chat w s user_message =
     (case get_cache_key (str_lower w) (pdf_context s) user_message of
        Inl e \<Rightarrow> (Inl e, s)
      | Inr cache_key \<Rightarrow>
          (case response_cache s cache_key of
             Some cached \<Rightarrow> (Inr cached, s)
           | None \<Rightarrow>
               (let r = chat_stream w s user_message in
                case raised r of
                  Some e \<Rightarrow> (Inl e, final r)
                | None \<Rightarrow> (join_empty (yielded r), final r))))"

section \<open>qa_engine.py\<close>

text \<open>
  The closure \<open>answer_stream\<close> of \<open>make_qa_chain\<close> captures the retriever built over the
  index and the model name. Of a retrieved document only \<open>page_content\<close> is read, so a
  document is its text.
\<close>

record retriever =
  invoke :: "pystr \<Rightarrow> exn + pystr list"
  get_relevant_documents :: "pystr \<Rightarrow> exn + pystr list"

definition retrieve :: "retriever \<Rightarrow> pystr \<Rightarrow> exn + pystr list" where
  "retrieve r question =
     (case invoke r question of
        Inl e \<Rightarrow> if is_AttributeError e then get_relevant_documents r question else Inl e
      | Inr docs \<Rightarrow> Inr docs)"

definition refusal_sentence :: pystr where
  "refusal_sentence =
     ascii ''I don't have enough information from this document to answer that question.''"

definition qa_prompt :: "pystr \<Rightarrow> pystr \<Rightarrow> pystr" where
  "qa_prompt ctx question =
     ascii ''You are Athena, an intelligent AI research assistant.'' @ [10]
     @ ascii ''Answer the question based strictly on the provided context below.'' @ [10]
     @ ascii ''If the context doesn't contain enough information, say: '' @ [34]
     @ refusal_sentence @ [34] @ [10, 10]
     @ ascii ''Context:'' @ [10] @ ctx @ [10, 10]
     @ ascii ''Question: '' @ question @ [10, 10]
     @ ascii ''Answer:''"

definition qa_request :: "pystr \<Rightarrow> pystr \<Rightarrow> request" where
  "qa_request mdl prompt =
     \<lparr>url = ascii ''http://localhost:11434/api/generate'', payload_model = mdl,
      payload_prompt = prompt, payload_stream = True, option_temperature = 3 / 10,
      option_num_predict = 250, option_num_ctx = 2048, payload_keep_alive = ascii ''10m'',
      timeout_seconds = 60, stream_kw = True\<rparr>"

text \<open>
  The loop over \<open>response.iter_lines()\<close> in \<open>answer_stream\<close>: the tokens yielded and
  the exception that left the loop, if one did. The bare \<open>except\<close> inside catches
  whatever the body of the \<open>try\<close> raises.
\<close>

fun qa_consume :: "line list \<Rightarrow> exn option \<Rightarrow> json list \<times> exn option" where
  "qa_consume [] tail = ([], tail)"
| "qa_consume (EmptyLine # ls) tail = qa_consume ls tail"
| "qa_consume (Payload (Inl e) # ls) tail = qa_consume ls tail"
| "qa_consume (Payload (Inr data) # ls) tail =
     (case dict_get data (ascii ''response'') (JStr []) of
        Inl e \<Rightarrow> qa_consume ls tail
      | Inr token \<Rightarrow>
          (let ys = (if truthy token then [token] else []) in
           case dict_get data (ascii ''done'') (JBool False) of
             Inl e \<Rightarrow> (case qa_consume ls tail of (r, x) \<Rightarrow> (ys @ r, x))
           | Inr d \<Rightarrow>
               if truthy d then (ys, None)
               else (case qa_consume ls tail of (r, x) \<Rightarrow> (ys @ r, x))))"

definition qa_no_context_message :: pystr where
  "qa_no_context_message = [9888, 65039] @ ascii '' No relevant context found in the document.''"

definition qa_timeout_message :: pystr where
  "qa_timeout_message =
     [10060] @ ascii '' Request timed out. The model might be processing a large context.''"

definition qa_connect_message :: pystr where
  "qa_connect_message =
     [10060]
     @ ascii '' Could not connect to Ollama. Make sure it's running on http://localhost:11434''"

definition qa_error_prefix :: pystr where
  "qa_error_prefix = [10060] @ ascii '' Error during Q&A: ''"

definition qa_status_message :: "int \<Rightarrow> pystr \<Rightarrow> pystr" where
  "qa_status_message code body =
     [10060] @ ascii '' Ollama API error '' @ str_int code @ ascii '': '' @ body"

text \<open>The three \<open>except\<close> clauses of \<open>answer_stream\<close>, in their order.\<close>

definition qa_except :: "exn \<Rightarrow> pystr" where
  "qa_except e =
     (if is_Timeout e then qa_timeout_message
      else if is_ConnectionError e then qa_connect_message
      else qa_error_prefix @ exn_str e)"

text \<open>\<open>answer_stream\<close> run to its end: the values it yields. It raises nothing.\<close>

definition answer_stream :: "backend \<Rightarrow> retriever \<Rightarrow> pystr \<Rightarrow> pystr \<Rightarrow> json list" where
  "answer_stream post retr mdl question =
     (case retrieve retr question of
        Inl e \<Rightarrow> [JStr (qa_except e)]
      | Inr docs \<Rightarrow>
          if docs = [] then [JStr qa_no_context_message]
          else
            (let ctx = str_join ([10, 10] @ ascii ''---'' @ [10, 10]) docs;
                 prompt = qa_prompt ctx question
             in case post (qa_request mdl prompt) of
                  Inl e \<Rightarrow> [JStr (qa_except e)]
                | Inr resp \<Rightarrow>
                    if status_code resp \<noteq> 200 then
                      [JStr (qa_status_message (status_code resp) (body_text resp))]
                    else
                      (case qa_consume (iter_lines resp) (iter_error resp) of
                         (ys, Some e) \<Rightarrow> ys @ [JStr (qa_except e)]
                       | (ys, None) \<Rightarrow> ys)))"

definition answer :: "backend \<Rightarrow> retriever \<Rightarrow> pystr \<Rightarrow> pystr \<Rightarrow> exn + pystr" where
  "answer post retr mdl question =
     (case join_empty (answer_stream post retr mdl question) of
        Inl e \<Rightarrow> Inl e
      | Inr joined \<Rightarrow> Inr (str_strip joined))"

section \<open>semantic_search.py\<close>




section \<open>pdf_utils.py\<close>

subsection \<open>clean_extracted_text\<close>

text \<open>
  The three substitutions of \<open>clean_extracted_text\<close>, each as \<open>re.sub\<close> performs it:
  matches are searched from the left, do not overlap, and look-around assertions read the
  original text.

  \<open>re.sub(r'(?<=\S)\s+(?=\S\s)', '', text)\<close>: a match can only be a maximal run of
  white space (a shorter one is followed by white space, not by \<open>\S\<close>; one starting
  inside a run is preceded by white space). The run is deleted when a character that
  is not white space stands before it and the text after it starts with such a character
  followed by white space. The flag tells whether the previous character exists and is not
  white space.
\<close>

function sub_spaced :: "bool \<Rightarrow> pystr \<Rightarrow> pystr" where
  "sub_spaced prev [] = []"
| "sub_spaced prev (c # cs) =
     (if isspace c then
        (let rest = dropWhile isspace cs in
         if prev \<and> (case rest of a # b # u \<Rightarrow> isspace b | _ \<Rightarrow> False)
         then sub_spaced False rest
         else (c # takeWhile isspace cs) @ sub_spaced False rest)
      else c # sub_spaced True cs)"
  by pat_completeness auto
termination
  by (relation "measure (\<lambda>(prev, s). length s)") (auto simp: length_dropWhile_le less_Suc_eq_le)

text \<open>
  \<open>re.sub(r'\s{2,}', ' ', cleaned)\<close>: every maximal run of two or more white space
  characters becomes one space.
\<close>

function sub_runs :: "pystr \<Rightarrow> pystr" where
  "sub_runs [] = []"
| "sub_runs (c # cs) =
     (if isspace c then
        (if takeWhile isspace cs \<noteq> [] then [32] else [c]) @ sub_runs (dropWhile isspace cs)
      else c # sub_runs cs)"
  by pat_completeness auto
termination
  by (relation "measure length") (auto simp: length_dropWhile_le less_Suc_eq_le)

text \<open>
  \<open>re.sub(r'([a-zA-Z])\s+([a-zA-Z])\s+([a-zA-Z])', r'\1\2\3', cleaned)\<close>.
  \<open>match_letters\<close> tries the pattern at the head of the text and gives the replacement
  and the number of characters matched.
\<close>

definition is_ascii_letter :: "nat \<Rightarrow> bool" where
  "is_ascii_letter c = ((65 \<le> c \<and> c \<le> 90) \<or> (97 \<le> c \<and> c \<le> 122))"

definition match_letters :: "pystr \<Rightarrow> (pystr \<times> nat) option" where
  "match_letters s =
     (case s of
        [] \<Rightarrow> None
      | l1 # r1 \<Rightarrow>
          (let w1 = takeWhile isspace r1 in
           case dropWhile isspace r1 of
             [] \<Rightarrow> None
           | l2 # r2 \<Rightarrow>
               (let w2 = takeWhile isspace r2 in
                case dropWhile isspace r2 of
                  [] \<Rightarrow> None
                | l3 # r3 \<Rightarrow>
                    if is_ascii_letter l1 \<and> w1 \<noteq> [] \<and> is_ascii_letter l2 \<and> w2 \<noteq> []
                       \<and> is_ascii_letter l3
                    then Some ([l1, l2, l3], 3 + length w1 + length w2)
                    else None)))"

function sub_letters :: "pystr \<Rightarrow> pystr" where
  "sub_letters [] = []"
| "sub_letters (c # cs) =
     (case match_letters (c # cs) of
        Some (rep, n) \<Rightarrow> rep @ sub_letters (drop (n - 1) cs)
      | None \<Rightarrow> c # sub_letters cs)"
  by pat_completeness auto
termination
  by (relation "measure length") auto

definition clean_extracted_text :: "pystr \<Rightarrow> pystr" where
  "clean_extracted_text t = str_strip (sub_letters (sub_runs (sub_spaced False t)))"

subsection \<open>extract_text_from_pdf_advanced\<close>

text \<open>
  \<open>PyPDF2\<close> is represented by what reading the file gives: an exception (from
  \<open>open\<close> or \<open>PdfReader\<close>), or the pages, each of which gives its text or raises in
  \<open>extract_text()\<close>. An exception ends the \<open>try\<close> block and leaves in \<open>text\<close> what
  the pages before it added.
\<close>

datatype pdf_file = PdfPath pystr | PdfStream nat

type_synonym pdf_reader = "pdf_file \<Rightarrow> exn + (exn + pystr) list"

fun collect_pages :: "pystr \<Rightarrow> (exn + pystr) list \<Rightarrow> pystr" where
  "collect_pages acc [] = acc"
| "collect_pages acc (Inl e # ps) = acc"
| "collect_pages acc (Inr page_text # ps) =
     collect_pages (if page_text \<noteq> [] then acc @ page_text @ [10] else acc) ps"

definition extracted_text :: "pdf_reader \<Rightarrow> pdf_file \<Rightarrow> pystr" where
  "extracted_text reader f =
     (case f of
        PdfPath path \<Rightarrow>
          (case reader (PdfPath path) of Inl e \<Rightarrow> [] | Inr pages \<Rightarrow> collect_pages [] pages)
      | PdfStream h \<Rightarrow>
          (case reader (PdfStream h) of Inl e \<Rightarrow> [] | Inr pages \<Rightarrow> collect_pages [] pages))"

text \<open>
  \<open>len(cleaned_text) > len(text) * 0.5\<close> compares an integer with the float product;
  halving is exact in binary floating point, so the comparison is the one of the rationals.
\<close>

definition extract_text_from_pdf_advanced :: "pdf_reader \<Rightarrow> pdf_file \<Rightarrow> pystr" where
  "extract_text_from_pdf_advanced reader f =
     (let t = extracted_text reader f in
      if t \<noteq> [] then
        (let cleaned_text = clean_extracted_text t in
         if (of_nat (length cleaned_text) :: rat) > of_nat (length t) * (1 / 2) then cleaned_text
         else t)
      else t)"

section \<open>The generation client as the specification words it\<close>

text \<open>
  Written from the specification, to compare the loops of the sources with: blank lines
  and records that do not parse as the expected format (a JSON object) are skipped; of
  each parseable record the token field is taken, then the terminal marker is checked;
  consumption stops with the first record that carries the marker, or at the end of the
  stream. \<open>parsed_record\<close> gives the \<open>response\<close> and \<open>done\<close> fields of a parseable
  record with the defaults of the protocol.
\<close>

fun parsed_record :: "line \<Rightarrow> (json \<times> json) option" where
  "parsed_record EmptyLine = None"
| "parsed_record (Payload (Inl e)) = None"
| "parsed_record (Payload (Inr (JDict kvs))) =
     Some (case map_of kvs (ascii ''response'') of None \<Rightarrow> JStr [] | Some v \<Rightarrow> v,
           case map_of kvs (ascii ''done'') of None \<Rightarrow> JBool False | Some v \<Rightarrow> v)"
| "parsed_record (Payload (Inr v)) = None"

definition spec_consumed :: "line list \<Rightarrow> (json \<times> json) list" where
  "spec_consumed ls =
     (let recs = List.map_filter parsed_record ls
      in takeWhile (\<lambda>r. \<not> truthy (snd r)) recs @ take 1 (dropWhile (\<lambda>r. \<not> truthy (snd r)) recs))"

definition spec_tokens :: "line list \<Rightarrow> json list" where
  "spec_tokens ls = filter truthy (map fst (spec_consumed ls))"

definition spec_stopped :: "line list \<Rightarrow> bool" where
  "spec_stopped ls = list_ex (\<lambda>r. truthy (snd r)) (List.map_filter parsed_record ls)"

fun json_line :: "line \<Rightarrow> bool" where
  "json_line EmptyLine = True"
| "json_line (Payload (Inl e)) = is_JSONDecodeError e"
| "json_line (Payload (Inr (JDict kvs))) = True"
| "json_line (Payload (Inr v)) = False"

section \<open>Scenarios\<close>

text \<open>Concrete backends, indexes and documents on which the properties below are run.\<close>

definition token_record :: "pystr \<Rightarrow> bool \<Rightarrow> line" where
  "token_record s d =
     Payload (Inr (JDict [(ascii ''response'', JStr s), (ascii ''done'', JBool d)]))"


definition spaced_pdf :: pdf_reader where
  "spaced_pdf f = Inr [Inr (ascii ''P y t h o n'')]"

definition plain_pdf :: pdf_reader where
  "plain_pdf f = Inr [Inr (ascii ''Hello world'')]"

definition fresh_chat :: athena_chat where
  "fresh_chat = init_chat (ascii ''llama3.2:1b'') (3 / 10)"

definition paris_lines :: "line list" where
  "paris_lines =
     [token_record (ascii ''Paris'') False, token_record (ascii '' is'') False,
      token_record (ascii '' the'') False, token_record (ascii '' capital'') False,
      token_record (ascii ''.'') True]"

definition paris_response :: response where
  "paris_response = \<lparr>status_code = 200, body_text = [], iter_lines = paris_lines, iter_error = None\<rparr>"

definition paris_backend :: backend where
  "paris_backend r = Inr paris_response"

definition capital_question :: pystr where
  "capital_question = ascii ''What is the capital of France?''"

definition env_with :: "backend \<Rightarrow> env" where
  "env_with b = \<lparr>str_lower = ascii_lower, datetime_now = 1700000000, requests_post = b\<rparr>"

definition refusing_backend :: backend where
  "refusing_backend r = Inl (Exn ConnectionError (ascii ''Connection refused''))"

definition timeout_backend :: backend where
  "timeout_backend r = Inl (Exn Timeout (ascii ''Read timed out.''))"

definition status_backend :: backend where
  "status_backend r =
     Inr \<lparr>status_code = 500, body_text = ascii ''model not found'', iter_lines = [],
          iter_error = None\<rparr>"

definition silent_backend :: backend where
  "silent_backend r =
     Inr \<lparr>status_code = 200, body_text = [], iter_lines = [EmptyLine, token_record [] True],
          iter_error = None\<rparr>"

definition broken_backend :: backend where
  "broken_backend r =
     Inr \<lparr>status_code = 200, body_text = [], iter_lines = [token_record (ascii ''Paris'') False],
          iter_error = Some (Exn ConnectionError (ascii ''Read timed out.''))\<rparr>"

definition padded_response :: response where
  "padded_response =
     \<lparr>status_code = 200, body_text = [],
      iter_lines = [token_record (ascii '' Paris'') False, token_record (ascii ''.'') False,
                    token_record [10] True],
      iter_error = None\<rparr>"

definition padded_backend :: backend where
  "padded_backend r = Inr padded_response"

definition paris_chunks :: "pystr \<Rightarrow> exn + pystr list" where
  "paris_chunks question =
     Inr [ascii ''The capital of France is Paris.'',
          ascii ''Paris has a population of about 2 million.'']"

definition paris_retriever :: retriever where
  "paris_retriever = \<lparr>invoke = paris_chunks, get_relevant_documents = paris_chunks\<rparr>"

definition invalid_start_byte :: pystr where
  "invalid_start_byte =
     [39] @ ascii ''utf-8'' @ [39] @ ascii '' codec can't decode byte 0xff in position 0: invalid start byte''"

definition garbled_response :: response where
  "garbled_response =
     \<lparr>status_code = 200, body_text = [],
      iter_lines =
        [token_record (ascii ''Paris'') False,
         Payload (Inl (Exn UnicodeDecodeError
           invalid_start_byte)),
         token_record (ascii '' is the capital.'') True],
      iter_error = None\<rparr>"

definition garbled_backend :: backend where
  "garbled_backend r = Inr garbled_response"

definition array_response :: response where
  "array_response =
     \<lparr>status_code = 200, body_text = [],
      iter_lines =
        [token_record (ascii ''Paris'') False, Payload (Inr (JList [JInt 1])),
         token_record (ascii '' is the capital.'') True],
      iter_error = None\<rparr>"

definition array_backend :: backend where
  "array_backend r = Inr array_response"

definition blank_response :: response where
  "blank_response =
     \<lparr>status_code = 200, body_text = [], iter_lines = [token_record (ascii '' '') True],
      iter_error = None\<rparr>"

definition blank_backend :: backend where
  "blank_backend r = Inr blank_response"

section \<open>Properties\<close>

subsection \<open>The response cache and its fingerprint\<close>

text \<open>
  C7. After \<open>set_pdf_context\<close>, \<open>clear_history\<close> and \<open>clear_pdf_context\<close> the response
  cache is empty: a lookup of any fingerprint, stored before or not, finds nothing.
\<close>

theorem cache_cleared_by_invalidation:
  "response_cache (set_pdf_context s pdf_text) = Map.empty
   \<and> response_cache (clear_history s) = Map.empty
   \<and> response_cache (clear_pdf_context s) = Map.empty
   \<and> response_cache (set_pdf_context s pdf_text) f = None
   \<and> response_cache (clear_history s) f = None
   \<and> response_cache (clear_pdf_context s) f = None"
  by (simp add: set_pdf_context_def clear_history_def clear_pdf_context_def)

text \<open>
  C5. The fingerprint of a message depends on the message only through its lower-cased,
  stripped form: two messages that agree after \<open>lower()\<close> and \<open>strip()\<close> have the
  same cache key (or make \<open>_get_cache_key\<close> raise the same exception) under every
  document context.
\<close>

theorem cache_key_normalization:
  assumes "str_strip (lower q1) = str_strip (lower q2)"
  shows "get_cache_key lower ctx q1 = get_cache_key lower ctx q2"
  using assms by (simp add: get_cache_key_def cong: sum.case_cong)

text \<open>The instance of the specification: \<open>"Hello "\<close> and \<open>"hello"\<close>.\<close>

theorem cache_key_normalization_witness:
  "str_strip (ascii_lower (ascii ''Hello '')) = str_strip (ascii_lower (ascii ''hello''))
   \<and> get_cache_key ascii_lower (Some (ascii ''The capital of France is Paris.''))
        (ascii ''Hello '')
     = get_cache_key ascii_lower (Some (ascii ''The capital of France is Paris.''))
        (ascii ''hello'')"
proof -
  have h: "str_strip (ascii_lower (ascii ''Hello '')) = str_strip (ascii_lower (ascii ''hello''))"
    by (simp add: str_strip_def ascii_lower_def ascii_def isspace_def)
  from cache_key_normalization [of ascii_lower "ascii ''Hello ''" "ascii ''hello''", OF h] h
  show ?thesis by blast
qed

text \<open>
  C6, as stated, fails: only the first 1000 characters of the context enter the key, so
  two different contexts that share them have the same fingerprint for every query, with
  no digest collision involved. The same holds for a missing and an empty context.
\<close>

theorem cache_key_context_counterexample:
  "Some (replicate 1000 (97::nat)) \<noteq> Some (replicate 1001 97)
   \<and> get_cache_key ascii_lower (Some (replicate 1000 97)) (ascii ''q'')
     = get_cache_key ascii_lower (Some (replicate 1001 97)) (ascii ''q'')"
proof -
  have "length (replicate 1000 (97::nat)) \<noteq> length (replicate 1001 (97::nat))" by simp
  then have "replicate 1000 (97::nat) \<noteq> replicate 1001 97" by metis
  moreover have "take 1000 (context_or_empty (Some (replicate 1000 (97::nat))))
      = take 1000 (context_or_empty (Some (replicate 1001 97)))"
    by (simp add: context_or_empty_def)
  ultimately show ?thesis by (simp add: get_cache_key_def)
qed

text \<open>
  C6, amended. When the strings involved can be encoded, the fingerprints of one query
  under two contexts are equal exactly when the first 8 hexadecimal digits of the MD5
  digests of the contexts' first 1000 characters are equal (a missing context counts as
  the empty one). So contexts that agree on their first 1000 characters share every
  fingerprint, and contexts that differ there are told apart up to a collision of the
  truncated digest.
\<close>

theorem cache_key_context_sensitivity:
  assumes "encode (take 1000 (context_or_empty c1)) = Inr b1"
      and "encode (take 1000 (context_or_empty c2)) = Inr b2"
      and "encode (str_strip (lower q)) = Inr bq"
  shows "((get_cache_key lower c1 q = get_cache_key lower c2 q)
            = (take 8 (md5_hexdigest b1) = take 8 (md5_hexdigest b2)))
         \<and> (take 1000 (context_or_empty c1) = take 1000 (context_or_empty c2)
              \<longrightarrow> get_cache_key lower c1 q = get_cache_key lower c2 q)"
  using assms by (auto simp add: get_cache_key_def md5_hex_def Let_def)

theorem cache_key_context_sensitivity_witness:
  "((get_cache_key ascii_lower (Some (ascii ''ab'')) (ascii ''Q'')
       = get_cache_key ascii_lower (Some (ascii ''ac'')) (ascii ''Q''))
      = (take 8 (md5_hexdigest [97, 98]) = take 8 (md5_hexdigest [97, 99])))
   \<and> get_cache_key ascii_lower None (ascii ''Q'') = get_cache_key ascii_lower (Some []) (ascii ''Q'')"
proof -
  have 1: "encode (take 1000 (context_or_empty (Some (ascii ''ab'')))) = Inr [97, 98]"
    by (simp add: context_or_empty_def ascii_def utf8_char_def)
  have 2: "encode (take 1000 (context_or_empty (Some (ascii ''ac'')))) = Inr [97, 99]"
    by (simp add: context_or_empty_def ascii_def utf8_char_def)
  have 3: "encode (str_strip (ascii_lower (ascii ''Q''))) = Inr [113]"
    by (simp add: str_strip_def ascii_lower_def ascii_def isspace_def utf8_char_def)
  have 4: "encode (take 1000 (context_or_empty None)) = Inr []"
    by (simp add: context_or_empty_def)
  have 5: "encode (take 1000 (context_or_empty (Some []))) = Inr []"
    by (simp add: context_or_empty_def)
  have 6: "take 1000 (context_or_empty None) = take 1000 (context_or_empty (Some []))"
    by (simp add: context_or_empty_def)
  from cache_key_context_sensitivity [where lower = ascii_lower and q = "ascii ''Q''", OF 1 2 3]
  have a: "(get_cache_key ascii_lower (Some (ascii ''ab'')) (ascii ''Q'')
       = get_cache_key ascii_lower (Some (ascii ''ac'')) (ascii ''Q''))
      = (take 8 (md5_hexdigest [97, 98]) = take 8 (md5_hexdigest [97, 99]))"
    by blast
  from cache_key_context_sensitivity [where lower = ascii_lower and q = "ascii ''Q''", OF 4 5 3] 6
  have b: "get_cache_key ascii_lower None (ascii ''Q'') = get_cache_key ascii_lower (Some []) (ascii ''Q'')"
    by blast
  from a b show ?thesis by blast
qed

subsection \<open>Semantic search\<close>





subsection \<open>The fallback of the advanced extraction\<close>

lemma clean_spaced_word:
  "clean_extracted_text (ascii ''P y t h o n'' @ [10]) = ascii ''Python''"
  by (simp add: clean_extracted_text_def str_strip_def ascii_def isspace_def match_letters_def
      is_ascii_letter_def)

lemma clean_plain_words:
  "clean_extracted_text (ascii ''Hello world'' @ [10]) = ascii ''Hello world''"
  by (simp add: clean_extracted_text_def str_strip_def ascii_def isspace_def match_letters_def
      is_ascii_letter_def)

text \<open>
  C9. When the extracted text \<open>t\<close> is not empty, \<open>extract_text_from_pdf_advanced\<close>
  returns the cleaned text if its length exceeds half the length of \<open>t\<close>, and \<open>t\<close>
  itself otherwise; and the result is the cleaned text exactly when the cleaned text is
  longer than half of \<open>t\<close>.
\<close>

theorem advanced_extraction_threshold:
  assumes "extracted_text reader f = t" and "t \<noteq> []"
  shows "extract_text_from_pdf_advanced reader f
           = (if 2 * length (clean_extracted_text t) > length t then clean_extracted_text t else t)
         \<and> ((extract_text_from_pdf_advanced reader f = clean_extracted_text t)
              = (2 * length (clean_extracted_text t) > length t))"
proof -
  have half: "((of_nat (length (clean_extracted_text t)) :: rat) > of_nat (length t) * (1 / 2))
      = (2 * length (clean_extracted_text t) > length t)"
  proof -
    have "((of_nat (length (clean_extracted_text t)) :: rat) > of_nat (length t) * (1 / 2))
        = ((of_nat (length t) :: rat) < of_nat (2 * length (clean_extracted_text t)))"
      by (simp add: field_simps)
    then show ?thesis by (simp only: of_nat_less_iff)
  qed
  have r: "extract_text_from_pdf_advanced reader f
      = (if 2 * length (clean_extracted_text t) > length t then clean_extracted_text t else t)"
    using assms half by (simp add: extract_text_from_pdf_advanced_def Let_def)
  have "t \<noteq> clean_extracted_text t \<or> 2 * length (clean_extracted_text t) > length t"
  proof (cases "t = clean_extracted_text t")
    case True
    have "length t > 0" using assms(2) by simp
    then have "2 * length t > length t" by simp
    with True show ?thesis by simp
  next
    case False then show ?thesis by simp
  qed
  with r show ?thesis by auto
qed

text \<open>
  Both branches are taken: a page of letters spaced out loses half of its characters and
  comes back uncleaned, a page of plain words comes back cleaned.
\<close>

theorem advanced_extraction_threshold_witness:
  "extracted_text spaced_pdf (PdfStream 0) = ascii ''P y t h o n'' @ [10]
   \<and> extract_text_from_pdf_advanced spaced_pdf (PdfStream 0) = ascii ''P y t h o n'' @ [10]
   \<and> extracted_text plain_pdf (PdfStream 0) = ascii ''Hello world'' @ [10]
   \<and> extract_text_from_pdf_advanced plain_pdf (PdfStream 0) = ascii ''Hello world''"
proof -
  have 1: "extracted_text spaced_pdf (PdfStream 0) = ascii ''P y t h o n'' @ [10]"
    by (simp add: extracted_text_def spaced_pdf_def ascii_def)
  have 2: "extracted_text plain_pdf (PdfStream 0) = ascii ''Hello world'' @ [10]"
    by (simp add: extracted_text_def plain_pdf_def ascii_def)
  have n1: "ascii ''P y t h o n'' @ [10] \<noteq> []" by (simp add: ascii_def)
  have n2: "ascii ''Hello world'' @ [10] \<noteq> []" by (simp add: ascii_def)
  have a: "extract_text_from_pdf_advanced spaced_pdf (PdfStream 0) = ascii ''P y t h o n'' @ [10]"
    using advanced_extraction_threshold [OF 1 n1] unfolding clean_spaced_word
    by (simp add: ascii_def)
  have b: "extract_text_from_pdf_advanced plain_pdf (PdfStream 0) = ascii ''Hello world''"
    using advanced_extraction_threshold [OF 2 n2] unfolding clean_plain_words
    by (simp add: ascii_def)
  from a b 1 2 show ?thesis by simp
qed

subsection \<open>Recording of chat turns\<close>

lemma chat_stream_miss:
  assumes "get_cache_key (str_lower w) (pdf_context s) m = Inr key"
      and "response_cache s key = None"
      and "requests_post w (chat_request s m) = Inr resp"
      and "status_code resp = 200"
      and "chat_consume (iter_lines resp) (iter_error resp) = (toks, None)"
      and "join_empty toks = Inr joined"
  shows "chat_stream w s m =
           \<lparr>yielded = toks, raised = None,
            final = (if str_strip joined \<noteq> [] then
                       s\<lparr>chat_history := chat_history s @
                            [\<lparr>timestamp = datetime_now w, user = m, assistant = str_strip joined\<rparr>],
                         response_cache := (response_cache s)(key \<mapsto> str_strip joined)\<rparr>
                     else s)\<rparr>"
  using assms by (simp add: chat_stream_def Let_def)

lemma chat_stream_final_cases:
  "final (chat_stream w s m) = s
   \<or> (\<exists>key resp toks joined.
         get_cache_key (str_lower w) (pdf_context s) m = Inr key
         \<and> response_cache s key = None
         \<and> requests_post w (chat_request s m) = Inr resp
         \<and> status_code resp = 200
         \<and> chat_consume (iter_lines resp) (iter_error resp) = (toks, None)
         \<and> join_empty toks = Inr joined
         \<and> str_strip joined \<noteq> []
         \<and> final (chat_stream w s m) =
              s\<lparr>chat_history := chat_history s @
                   [\<lparr>timestamp = datetime_now w, user = m, assistant = str_strip joined\<rparr>],
                response_cache := (response_cache s)(key \<mapsto> str_strip joined)\<rparr>)"
  by (auto simp add: chat_stream_def Let_def split: sum.splits option.splits prod.splits)

lemma chat_stream_request_raises:
  "requests_post w (chat_request s m) = Inl e \<Longrightarrow> final (chat_stream w s m) = s"
  by (auto simp add: chat_stream_def Let_def split: sum.splits option.splits prod.splits)

lemma chat_stream_bad_status:
  "requests_post w (chat_request s m) = Inr resp \<Longrightarrow> status_code resp \<noteq> 200
     \<Longrightarrow> final (chat_stream w s m) = s"
  by (auto simp add: chat_stream_def Let_def split: sum.splits option.splits prod.splits)

lemma chat_stream_broken_stream:
  "requests_post w (chat_request s m) = Inr resp
     \<Longrightarrow> snd (chat_consume (iter_lines resp) (iter_error resp)) = Some e
     \<Longrightarrow> final (chat_stream w s m) = s"
  by (auto simp add: chat_stream_def Let_def split: sum.splits option.splits prod.splits)

lemma strip_empty: "str_strip [] = []" by (simp add: str_strip_def)

lemma chat_stream_no_tokens:
  "requests_post w (chat_request s m) = Inr resp
     \<Longrightarrow> fst (chat_consume (iter_lines resp) (iter_error resp)) = []
     \<Longrightarrow> final (chat_stream w s m) = s"
  by (auto simp add: chat_stream_def Let_def join_empty_def strip_empty
      split: sum.splits option.splits prod.splits)

text \<open>
  C1. A chat turn whose generation fails leaves the object as it was, so the history has
  the length it had and the cache has no new entry: when \<open>requests.post\<close> raises
  (connection failure, timeout or anything else), when the status code is not 200, when
  the stream breaks off with an exception, and when the stream yields no token. Conversely,
  whenever a call changes the object, the request succeeded with status 200, the stream
  ended without an exception, the tokens joined to a message that is not empty after
  \<open>strip()\<close>, and the change is exactly one turn appended and one cache entry written,
  both holding that message.
\<close>

theorem failed_turn_records_nothing:
  "(requests_post w (chat_request s m) = Inl e \<longrightarrow> final (chat_stream w s m) = s)
   \<and> (requests_post w (chat_request s m) = Inr resp \<and> status_code resp \<noteq> 200
        \<longrightarrow> final (chat_stream w s m) = s)
   \<and> (requests_post w (chat_request s m) = Inr resp
        \<and> snd (chat_consume (iter_lines resp) (iter_error resp)) = Some e
        \<longrightarrow> final (chat_stream w s m) = s)
   \<and> (requests_post w (chat_request s m) = Inr resp
        \<and> fst (chat_consume (iter_lines resp) (iter_error resp)) = []
        \<longrightarrow> final (chat_stream w s m) = s)
   \<and> (final (chat_stream w s m) \<noteq> s \<longrightarrow>
        (\<exists>key r toks joined.
           get_cache_key (str_lower w) (pdf_context s) m = Inr key
           \<and> response_cache s key = None
           \<and> requests_post w (chat_request s m) = Inr r
           \<and> status_code r = 200
           \<and> chat_consume (iter_lines r) (iter_error r) = (toks, None)
           \<and> join_empty toks = Inr joined
           \<and> str_strip joined \<noteq> []
           \<and> final (chat_stream w s m) =
                s\<lparr>chat_history := chat_history s @
                     [\<lparr>timestamp = datetime_now w, user = m, assistant = str_strip joined\<rparr>],
                  response_cache := (response_cache s)(key \<mapsto> str_strip joined)\<rparr>))"
  using chat_stream_final_cases [of w s m] chat_stream_request_raises [of w s m e]
    chat_stream_bad_status [of w s m resp] chat_stream_broken_stream [of w s m resp e]
    chat_stream_no_tokens [of w s m resp]
  by blast

lemma paris_consume: "chat_consume paris_lines None =
   ([JStr (ascii ''Paris''), JStr (ascii '' is''), JStr (ascii '' the''), JStr (ascii '' capital''),
     JStr (ascii ''.'')], None)"
  by (simp add: paris_lines_def token_record_def ascii_def)

lemma paris_join: "join_empty [JStr (ascii ''Paris''), JStr (ascii '' is''), JStr (ascii '' the''), JStr (ascii '' capital''),
     JStr (ascii ''.'')] = Inr (ascii ''Paris is the capital.'')"
  by (simp add: join_empty_def ascii_def)

lemma paris_strip: "str_strip (ascii ''Paris is the capital.'') = ascii ''Paris is the capital.''"
  by (simp add: str_strip_def ascii_def isspace_def)

lemma capital_question_key: "get_cache_key ascii_lower None capital_question
   = Inr (take 8 (md5_hexdigest []) @ ascii ''_'' @ md5_hexdigest (map of_nat (ascii ''what is the capital of france?'')))"
  by (simp add: get_cache_key_def md5_hex_def context_or_empty_def capital_question_def
      str_strip_def ascii_lower_def ascii_def isspace_def utf8_char_def)

text \<open>
  The five failures on a fresh session, and the successful turn that does record: the
  recorded turn is the one the theorem describes.
\<close>

theorem failed_turn_records_nothing_witness:
  "final (chat_stream (env_with refusing_backend) fresh_chat capital_question) = fresh_chat
   \<and> final (chat_stream (env_with timeout_backend) fresh_chat capital_question) = fresh_chat
   \<and> final (chat_stream (env_with status_backend) fresh_chat capital_question) = fresh_chat
   \<and> final (chat_stream (env_with broken_backend) fresh_chat capital_question) = fresh_chat
   \<and> final (chat_stream (env_with silent_backend) fresh_chat capital_question) = fresh_chat
   \<and> chat_history (final (chat_stream (env_with paris_backend) fresh_chat capital_question))
       = [\<lparr>timestamp = 1700000000, user = capital_question,
           assistant = ascii ''Paris is the capital.''\<rparr>]"
proof -
  let ?q = capital_question
  have 1: "final (chat_stream (env_with refusing_backend) fresh_chat ?q) = fresh_chat"
    using failed_turn_records_nothing [of "env_with refusing_backend" fresh_chat ?q
        "Exn ConnectionError (ascii ''Connection refused'')"]
    by (simp add: env_with_def refusing_backend_def)
  have 2: "final (chat_stream (env_with timeout_backend) fresh_chat ?q) = fresh_chat"
    using failed_turn_records_nothing [of "env_with timeout_backend" fresh_chat ?q
        "Exn Timeout (ascii ''Read timed out.'')"]
    by (simp add: env_with_def timeout_backend_def)
  have 3: "final (chat_stream (env_with status_backend) fresh_chat ?q) = fresh_chat"
    using failed_turn_records_nothing [of "env_with status_backend" fresh_chat ?q _
        "\<lparr>status_code = 500, body_text = ascii ''model not found'', iter_lines = [],
          iter_error = None\<rparr>"]
    by (simp add: env_with_def status_backend_def)
  have 4: "final (chat_stream (env_with broken_backend) fresh_chat ?q) = fresh_chat"
    using failed_turn_records_nothing [of "env_with broken_backend" fresh_chat ?q
        "Exn ConnectionError (ascii ''Read timed out.'')"
        "\<lparr>status_code = 200, body_text = [], iter_lines = [token_record (ascii ''Paris'') False],
          iter_error = Some (Exn ConnectionError (ascii ''Read timed out.''))\<rparr>"]
    by (simp add: env_with_def broken_backend_def token_record_def ascii_def)
  have 5: "final (chat_stream (env_with silent_backend) fresh_chat ?q) = fresh_chat"
    using failed_turn_records_nothing [of "env_with silent_backend" fresh_chat ?q _
        "\<lparr>status_code = 200, body_text = [], iter_lines = [EmptyLine, token_record [] True],
          iter_error = None\<rparr>"]
    by (simp add: env_with_def silent_backend_def token_record_def ascii_def)
  have k: "get_cache_key (str_lower (env_with paris_backend)) (pdf_context fresh_chat) ?q
      = Inr (take 8 (md5_hexdigest []) @ ascii ''_''
             @ md5_hexdigest (map of_nat (ascii ''what is the capital of france?'')))"
    using capital_question_key by (simp add: env_with_def fresh_chat_def init_chat_def)
  have m: "chat_stream (env_with paris_backend) fresh_chat ?q =
       \<lparr>yielded = [JStr (ascii ''Paris''), JStr (ascii '' is''), JStr (ascii '' the''),
                   JStr (ascii '' capital''), JStr (ascii ''.'')],
        raised = None,
        final = fresh_chat
          \<lparr>chat_history := chat_history fresh_chat @
             [\<lparr>timestamp = datetime_now (env_with paris_backend), user = ?q,
               assistant = ascii ''Paris is the capital.''\<rparr>],
           response_cache := (response_cache fresh_chat)
             (take 8 (md5_hexdigest []) @ ascii ''_''
              @ md5_hexdigest (map of_nat (ascii ''what is the capital of france?''))
              \<mapsto> ascii ''Paris is the capital.'')\<rparr>\<rparr>"
    using chat_stream_miss [OF k, of paris_response
        "[JStr (ascii ''Paris''), JStr (ascii '' is''), JStr (ascii '' the''),
          JStr (ascii '' capital''), JStr (ascii ''.'')]" "ascii ''Paris is the capital.''"]
      paris_consume paris_join paris_strip
    by (simp add: env_with_def paris_backend_def paris_response_def fresh_chat_def init_chat_def ascii_def)
  have ne: "final (chat_stream (env_with paris_backend) fresh_chat ?q) \<noteq> fresh_chat"
  proof
    assume "final (chat_stream (env_with paris_backend) fresh_chat ?q) = fresh_chat"
    then have "chat_history (final (chat_stream (env_with paris_backend) fresh_chat ?q))
        = chat_history fresh_chat" by simp
    then show False unfolding m by simp
  qed
  from failed_turn_records_nothing [of "env_with paris_backend" fresh_chat ?q] ne
  obtain key r toks joined where
    r: "requests_post (env_with paris_backend) (chat_request fresh_chat ?q) = Inr r"
    and c: "chat_consume (iter_lines r) (iter_error r) = (toks, None)"
    and j: "join_empty toks = Inr joined"
    and f: "final (chat_stream (env_with paris_backend) fresh_chat ?q) =
              fresh_chat\<lparr>chat_history := chat_history fresh_chat @
                   [\<lparr>timestamp = datetime_now (env_with paris_backend), user = ?q,
                     assistant = str_strip joined\<rparr>],
                response_cache := (response_cache fresh_chat)(key \<mapsto> str_strip joined)\<rparr>"
    by blast
  from r have "r = paris_response" by (simp add: env_with_def paris_backend_def)
  with c paris_consume have "toks = [JStr (ascii ''Paris''), JStr (ascii '' is''), JStr (ascii '' the''),
          JStr (ascii '' capital''), JStr (ascii ''.'')]"
    by (simp add: paris_response_def)
  with j paris_join have "joined = ascii ''Paris is the capital.''" by simp
  with f paris_strip have 6: "chat_history (final (chat_stream (env_with paris_backend) fresh_chat ?q))
       = [\<lparr>timestamp = 1700000000, user = ?q, assistant = ascii ''Paris is the capital.''\<rparr>]"
    by (simp add: fresh_chat_def init_chat_def env_with_def)
  from 1 2 3 4 5 6 show ?thesis by blast
qed

subsection \<open>What chat returns and what it records\<close>

lemma chat_miss:
  assumes "get_cache_key (str_lower w) (pdf_context s) q = Inr key"
      and "response_cache s key = None"
      and "requests_post w (chat_request s q) = Inr resp"
      and "status_code resp = 200"
      and "chat_consume (iter_lines resp) (iter_error resp) = (toks, None)"
      and "join_empty toks = Inr joined"
  shows "chat w s q =
           (Inr joined,
            if str_strip joined \<noteq> [] then
              s\<lparr>chat_history := chat_history s @
                   [\<lparr>timestamp = datetime_now w, user = q, assistant = str_strip joined\<rparr>],
                response_cache := (response_cache s)(key \<mapsto> str_strip joined)\<rparr>
            else s)"
  using assms(1,2,6) by (simp add: chat_def Let_def chat_stream_miss [OF assms])

lemma chat_hit:
  assumes "get_cache_key (str_lower w) (pdf_context s) q = Inr key"
      and "response_cache s key = Some v"
  shows "chat w s q = (Inr v, s)"
  using assms by (simp add: chat_def)

lemma chat_repeated:
  assumes "get_cache_key (str_lower w) (pdf_context s) q = Inr key"
      and "response_cache s key = None"
      and "requests_post w (chat_request s q) = Inr resp"
      and "status_code resp = 200"
      and "chat_consume (iter_lines resp) (iter_error resp) = (toks, None)"
      and "join_empty toks = Inr joined"
      and "str_strip joined \<noteq> []"
  shows "fst (chat w (snd (chat w s q)) q) = Inr (str_strip joined)"
proof -
  let ?s' = "s\<lparr>chat_history := chat_history s @
                   [\<lparr>timestamp = datetime_now w, user = q, assistant = str_strip joined\<rparr>],
                response_cache := (response_cache s)(key \<mapsto> str_strip joined)\<rparr>"
  have 1: "snd (chat w s q) = ?s'" using chat_miss [OF assms(1-6)] assms(7) by simp
  have 2: "get_cache_key (str_lower w) (pdf_context ?s') q = Inr key" using assms(1) by simp
  have 3: "response_cache ?s' key = Some (str_strip joined)" by simp
  show ?thesis unfolding 1 using chat_hit [OF 2 3] by simp
qed

lemma padded_consume:
  "chat_consume (iter_lines padded_response) (iter_error padded_response)
     = ([JStr (ascii '' Paris''), JStr (ascii ''.''), JStr [10]], None)"
  by (simp add: padded_response_def token_record_def ascii_def)

lemma padded_status: "status_code padded_response = 200"
  by (simp add: padded_response_def)

lemma padded_post:
  "requests_post (env_with padded_backend) (chat_request s q) = Inr padded_response"
  by (simp add: env_with_def padded_backend_def)

lemma padded_not_blank: "str_strip (ascii '' Paris.'' @ [10]) \<noteq> []"
  by (simp add: str_strip_def ascii_def isspace_def)

lemma padded_join: "join_empty [JStr (ascii '' Paris''), JStr (ascii ''.''), JStr [10]]
     = Inr (ascii '' Paris.'' @ [10])"
  by (simp add: join_empty_def ascii_def)

lemma padded_strip: "str_strip (ascii '' Paris.'' @ [10]) = ascii ''Paris.''"
  by (simp add: str_strip_def ascii_def isspace_def)

lemma fresh_capital_key:
  "get_cache_key (str_lower (env_with b)) (pdf_context fresh_chat) capital_question
      = Inr (take 8 (md5_hexdigest []) @ ascii ''_''
             @ md5_hexdigest (map of_nat (ascii ''what is the capital of france?'')))"
  using capital_question_key by (simp add: env_with_def fresh_chat_def init_chat_def)

lemma fresh_capital_miss:
  "response_cache fresh_chat key = None"
  by (simp add: fresh_chat_def init_chat_def)

lemma padded_calls:
  "fst (chat (env_with padded_backend) fresh_chat capital_question) = Inr (ascii '' Paris.'' @ [10])
   \<and> fst (chat (env_with padded_backend)
            (snd (chat (env_with padded_backend) fresh_chat capital_question)) capital_question)
       = Inr (str_strip (ascii '' Paris.'' @ [10]))"
  using chat_miss [OF fresh_capital_key fresh_capital_miss padded_post padded_status
      padded_consume padded_join]
    chat_repeated [OF fresh_capital_key fresh_capital_miss padded_post padded_status
      padded_consume padded_join padded_not_blank]
  by simp

lemma blank_consume:
  "chat_consume (iter_lines blank_response) (iter_error blank_response)
     = ([JStr (ascii '' '')], None)"
  by (simp add: blank_response_def token_record_def ascii_def)

lemma blank_status: "status_code blank_response = 200"
  by (simp add: blank_response_def)

lemma blank_post:
  "requests_post (env_with blank_backend) (chat_request s q) = Inr blank_response"
  by (simp add: env_with_def blank_backend_def)

lemma blank_join: "join_empty [JStr (ascii '' '')] = Inr (ascii '' '')"
  by (simp add: join_empty_def)

lemma blank_strip: "str_strip (ascii '' '') = []"
  by (simp add: str_strip_def ascii_def isspace_def)

text \<open>
  C10, as stated, fails. On a fresh session (a cache miss) whose stream yields the single
  token \<open>" "\<close>, \<open>chat\<close> returns \<open>" "\<close>, but no assistant message is recorded and
  no cache entry is written, so the repeated call is not served from the cache. And when
  the stream yields \<open>"Paris"\<close> and then breaks off, \<open>chat\<close> returns the token followed
  by the error message, and again nothing is recorded.
\<close>

theorem chat_blank_stream_counterexample:
  "get_cache_key (str_lower (env_with blank_backend)) (pdf_context fresh_chat) capital_question
     = Inr (take 8 (md5_hexdigest []) @ ascii ''_''
            @ md5_hexdigest (map of_nat (ascii ''what is the capital of france?'')))
   \<and> response_cache fresh_chat
        (take 8 (md5_hexdigest []) @ ascii ''_''
         @ md5_hexdigest (map of_nat (ascii ''what is the capital of france?''))) = None
   \<and> requests_post (env_with blank_backend) (chat_request fresh_chat capital_question)
       = Inr blank_response
   \<and> chat_consume (iter_lines blank_response) (iter_error blank_response)
       = ([JStr (ascii '' '')], None)
   \<and> fst (chat (env_with blank_backend) fresh_chat capital_question) = Inr (ascii '' '')
   \<and> snd (chat (env_with blank_backend) fresh_chat capital_question) = fresh_chat
   \<and> chat_history (snd (chat (env_with blank_backend) fresh_chat capital_question)) = []
   \<and> response_cache (snd (chat (env_with blank_backend) fresh_chat capital_question))
        (take 8 (md5_hexdigest []) @ ascii ''_''
         @ md5_hexdigest (map of_nat (ascii ''what is the capital of france?''))) = None
   \<and> fst (chat (env_with broken_backend) fresh_chat capital_question)
       = Inr (ascii ''Paris'' @ chat_connect_message)
   \<and> snd (chat (env_with broken_backend) fresh_chat capital_question) = fresh_chat"
proof -
  have b: "chat (env_with blank_backend) fresh_chat capital_question = (Inr (ascii '' ''), fresh_chat)"
    using chat_miss [OF fresh_capital_key fresh_capital_miss blank_post blank_status
        blank_consume blank_join] blank_strip
    by simp
  have h: "chat_history fresh_chat = []" by (simp add: fresh_chat_def init_chat_def)
  have r: "chat (env_with broken_backend) fresh_chat capital_question
      = (Inr (ascii ''Paris'' @ chat_connect_message), fresh_chat)"
    using fresh_capital_key [of broken_backend] fresh_capital_miss
    by (simp add: chat_def chat_stream_def env_with_def broken_backend_def token_record_def
        chat_except_def join_empty_def ascii_def)
  from b r h fresh_capital_key [of blank_backend] fresh_capital_miss blank_post blank_consume
  show ?thesis by simp
qed

text \<open>
  C10, amended. On a cache miss whose request returns status 200 and whose stream ends
  without an exception, with string tokens that join to \<open>joined\<close>, \<open>chat\<close> returns
  \<open>joined\<close> as it is, not stripped. When \<open>joined.strip()\<close> is not empty, the turn
  appended to the history and the cache entry written hold \<open>joined.strip()\<close>, and the
  same call repeated returns that stripped string from the cache; when it is empty,
  nothing is recorded or cached. So the two calls can differ by leading and trailing
  white space, and there is a session in which they do.
\<close>

theorem chat_unstripped_then_stripped:
  assumes "get_cache_key (str_lower w) (pdf_context s) q = Inr key"
      and "response_cache s key = None"
      and "requests_post w (chat_request s q) = Inr resp"
      and "status_code resp = 200"
      and "chat_consume (iter_lines resp) (iter_error resp) = (toks, None)"
      and "join_empty toks = Inr joined"
  shows "fst (chat w s q) = Inr joined
         \<and> (str_strip joined \<noteq> [] \<longrightarrow>
              chat_history (snd (chat w s q)) = chat_history s @
                [\<lparr>timestamp = datetime_now w, user = q, assistant = str_strip joined\<rparr>]
              \<and> response_cache (snd (chat w s q)) = (response_cache s)(key \<mapsto> str_strip joined)
              \<and> fst (chat w (snd (chat w s q)) q) = Inr (str_strip joined))
         \<and> (str_strip joined = [] \<longrightarrow> snd (chat w s q) = s)
         \<and> (\<exists>w' s' q' j. fst (chat w' s' q') = Inr j
               \<and> fst (chat w' (snd (chat w' s' q')) q') = Inr (str_strip j)
               \<and> str_strip j \<noteq> j)"
proof -
  have a: "fst (chat w s q) = Inr joined" using chat_miss [OF assms] by simp
  have b: "str_strip joined \<noteq> [] \<longrightarrow>
              chat_history (snd (chat w s q)) = chat_history s @
                [\<lparr>timestamp = datetime_now w, user = q, assistant = str_strip joined\<rparr>]
              \<and> response_cache (snd (chat w s q)) = (response_cache s)(key \<mapsto> str_strip joined)
              \<and> fst (chat w (snd (chat w s q)) q) = Inr (str_strip joined)"
    using chat_miss [OF assms] chat_repeated [OF assms] by simp
  have c: "str_strip joined = [] \<longrightarrow> snd (chat w s q) = s"
    using chat_miss [OF assms] by simp
  have "str_strip (ascii '' Paris.'' @ [10]) \<noteq> ascii '' Paris.'' @ [10]"
    unfolding padded_strip by (simp add: ascii_def)
  with padded_calls have d: "\<exists>w' s' q' j. fst (chat w' s' q') = Inr j
               \<and> fst (chat w' (snd (chat w' s' q')) q') = Inr (str_strip j)
               \<and> str_strip j \<noteq> j"
    by blast
  from a b c d show ?thesis by blast
qed

text \<open>
  The tokens \<open>" Paris"\<close>, \<open>"."\<close> and a newline on a fresh session, and a stream
  whose only token is a space.
\<close>

theorem chat_unstripped_then_stripped_witness:
  "fst (chat (env_with padded_backend) fresh_chat capital_question) = Inr (ascii '' Paris.'' @ [10])
   \<and> chat_history (snd (chat (env_with padded_backend) fresh_chat capital_question))
       = [\<lparr>timestamp = 1700000000, user = capital_question, assistant = ascii ''Paris.''\<rparr>]
   \<and> fst (chat (env_with padded_backend)
            (snd (chat (env_with padded_backend) fresh_chat capital_question)) capital_question)
       = Inr (ascii ''Paris.'')
   \<and> fst (chat (env_with blank_backend) fresh_chat capital_question) = Inr (ascii '' '')
   \<and> snd (chat (env_with blank_backend) fresh_chat capital_question) = fresh_chat"
proof -
  have 1: "fst (chat (env_with padded_backend) fresh_chat capital_question) = Inr (ascii '' Paris.'' @ [10])
   \<and> chat_history (snd (chat (env_with padded_backend) fresh_chat capital_question))
       = [\<lparr>timestamp = 1700000000, user = capital_question, assistant = ascii ''Paris.''\<rparr>]
   \<and> fst (chat (env_with padded_backend)
            (snd (chat (env_with padded_backend) fresh_chat capital_question)) capital_question)
       = Inr (ascii ''Paris.'')"
    using chat_unstripped_then_stripped [OF fresh_capital_key fresh_capital_miss padded_post
        padded_status padded_consume padded_join] padded_not_blank
    unfolding padded_strip
    by (simp add: fresh_chat_def init_chat_def env_with_def)
  have 2: "fst (chat (env_with blank_backend) fresh_chat capital_question) = Inr (ascii '' '')
   \<and> snd (chat (env_with blank_backend) fresh_chat capital_question) = fresh_chat"
    using chat_unstripped_then_stripped [OF fresh_capital_key fresh_capital_miss blank_post
        blank_status blank_consume blank_join] blank_strip
    by blast
  from 1 2 show ?thesis by blast
qed

subsection \<open>The end-to-end scenario\<close>







lemma answer_stream_sends_prompt:
  assumes "retrieve retr question = Inr docs" and "docs \<noteq> []"
  shows "answer_stream post retr mdl question
     = answer_stream
         (\<lambda>r. post (qa_request mdl
            (qa_prompt (str_join ([10, 10] @ ascii ''---'' @ [10, 10]) docs) question)))
         retr mdl question"
  using assms by (simp add: answer_stream_def Let_def)



subsection \<open>Where the two streaming loops differ\<close>

lemma str_int_500: "str_int 500 = ascii ''500''"
  by (simp add: str_int_def str_nat.simps ascii_def)

text \<open>
  C2 fails in \<open>chat_stream\<close>, which catches only \<open>json.JSONDecodeError\<close> inside
  its loop. A line whose bytes are not valid UTF-8 makes \<open>json.loads\<close> raise
  \<open>UnicodeDecodeError\<close>, and a line holding JSON that is not an object makes
  \<open>data.get\<close> raise \<open>AttributeError\<close>: either ends the stream with an error message,
  loses the tokens that follow and records no turn. \<open>answer_stream\<close>, with its bare
  \<open>except\<close>, skips the same lines and yields every token.
\<close>

theorem chat_stream_aborts_on_unparseable_record:
  "yielded (chat_stream (env_with garbled_backend) fresh_chat capital_question)
     = [JStr (ascii ''Paris''),
        JStr ([10060] @ ascii '' Error: '' @ invalid_start_byte)]
   \<and> final (chat_stream (env_with garbled_backend) fresh_chat capital_question) = fresh_chat
   \<and> answer_stream garbled_backend paris_retriever (ascii ''llama3.2:1b'') capital_question
       = [JStr (ascii ''Paris''), JStr (ascii '' is the capital.'')]
   \<and> yielded (chat_stream (env_with array_backend) fresh_chat capital_question)
       = [JStr (ascii ''Paris''),
          JStr ([10060] @ ascii '' Error: '' @ [39] @ ascii ''list'' @ [39] @ ascii '' object has no attribute '' @ [39] @ ascii ''get'' @ [39])]
   \<and> final (chat_stream (env_with array_backend) fresh_chat capital_question) = fresh_chat
   \<and> answer_stream array_backend paris_retriever (ascii ''llama3.2:1b'') capital_question
       = [JStr (ascii ''Paris''), JStr (ascii '' is the capital.'')]"
proof -
  have g: "chat_consume (iter_lines garbled_response) (iter_error garbled_response)
      = ([JStr (ascii ''Paris'')], Some (Exn UnicodeDecodeError
           invalid_start_byte))"
    by (simp add: garbled_response_def token_record_def ascii_def invalid_start_byte_def)
  have a: "chat_consume (iter_lines array_response) (iter_error array_response)
      = ([JStr (ascii ''Paris'')], Some (Exn AttributeError
           ([39] @ ascii ''list'' @ [39] @ ascii '' object has no attribute '' @ [39] @ ascii ''get'' @ [39])))"
    by (simp add: array_response_def token_record_def ascii_def)
  have gq: "qa_consume (iter_lines garbled_response) (iter_error garbled_response)
      = ([JStr (ascii ''Paris''), JStr (ascii '' is the capital.'')], None)"
    by (simp add: garbled_response_def token_record_def ascii_def invalid_start_byte_def)
  have aq: "qa_consume (iter_lines array_response) (iter_error array_response)
      = ([JStr (ascii ''Paris''), JStr (ascii '' is the capital.'')], None)"
    by (simp add: array_response_def token_record_def ascii_def)
  have sg: "status_code garbled_response = 200" by (simp add: garbled_response_def)
  have sa: "status_code array_response = 200" by (simp add: array_response_def)
  have 1: "chat_stream (env_with garbled_backend) fresh_chat capital_question
      = \<lparr>yielded = [JStr (ascii ''Paris''),
        JStr ([10060] @ ascii '' Error: '' @ invalid_start_byte)],
         raised = None, final = fresh_chat\<rparr>"
    using fresh_capital_key [of garbled_backend] fresh_capital_miss
    by (simp add: chat_stream_def env_with_def garbled_backend_def sg g chat_except_def
        chat_error_prefix_def ascii_def invalid_start_byte_def)
  have 2: "chat_stream (env_with array_backend) fresh_chat capital_question
      = \<lparr>yielded = [JStr (ascii ''Paris''),
          JStr ([10060] @ ascii '' Error: '' @ [39] @ ascii ''list'' @ [39] @ ascii '' object has no attribute '' @ [39] @ ascii ''get'' @ [39])],
         raised = None, final = fresh_chat\<rparr>"
    using fresh_capital_key [of array_backend] fresh_capital_miss
    by (simp add: chat_stream_def env_with_def array_backend_def sa a chat_except_def
        chat_error_prefix_def ascii_def)
  have 3: "answer_stream garbled_backend paris_retriever (ascii ''llama3.2:1b'') capital_question
       = [JStr (ascii ''Paris''), JStr (ascii '' is the capital.'')]"
    by (simp add: answer_stream_def retrieve_def paris_retriever_def paris_chunks_def
      garbled_backend_def sg gq Let_def)
  have 4: "answer_stream array_backend paris_retriever (ascii ''llama3.2:1b'') capital_question
       = [JStr (ascii ''Paris''), JStr (ascii '' is the capital.'')]"
    by (simp add: answer_stream_def retrieve_def paris_retriever_def paris_chunks_def
      array_backend_def sa aq Let_def)
  from 1 2 3 4 show ?thesis by simp
qed

text \<open>
  C4 fails in \<open>chat_stream\<close>: on a status code other than 200 it yields the code
  alone, where \<open>answer_stream\<close> yields the code and the body of the response.
\<close>

theorem chat_stream_status_message_omits_body:
  "yielded (chat_stream (env_with status_backend) fresh_chat capital_question)
     = [JStr ([10060] @ ascii '' Error: 500'')]
   \<and> answer_stream status_backend paris_retriever (ascii ''llama3.2:1b'') capital_question
       = [JStr ([10060] @ ascii '' Ollama API error 500: model not found'')]"
proof -
  have 1: "chat_stream (env_with status_backend) fresh_chat capital_question
      = \<lparr>yielded = [JStr ([10060] @ ascii '' Error: 500'')], raised = None, final = fresh_chat\<rparr>"
    using fresh_capital_key [of status_backend] fresh_capital_miss
    by (simp add: chat_stream_def env_with_def status_backend_def chat_error_prefix_def
        str_int_500) (simp add: ascii_def)
  have 2: "answer_stream status_backend paris_retriever (ascii ''llama3.2:1b'') capital_question
       = [JStr ([10060] @ ascii '' Ollama API error 500: model not found'')]"
    by (simp add: answer_stream_def retrieve_def paris_retriever_def paris_chunks_def
      status_backend_def qa_status_message_def str_int_500 Let_def) (simp add: ascii_def)
  from 1 2 show ?thesis by simp
qed

subsection \<open>The streaming loops against the specification\<close>

lemma spec_consumed_skip:
  "parsed_record l = None \<Longrightarrow> spec_consumed (l # ls) = spec_consumed ls"
  by (simp add: spec_consumed_def List.map_filter_simps)

lemma spec_consumed_record:
  "parsed_record l = Some r \<Longrightarrow>
     spec_consumed (l # ls) = (if truthy (snd r) then [r] else r # spec_consumed ls)"
  by (simp add: spec_consumed_def List.map_filter_simps Let_def)

lemma spec_stopped_skip:
  "parsed_record l = None \<Longrightarrow> spec_stopped (l # ls) = spec_stopped ls"
  by (simp add: spec_stopped_def List.map_filter_simps)

lemma spec_stopped_record:
  "parsed_record l = Some r \<Longrightarrow> spec_stopped (l # ls) = (truthy (snd r) \<or> spec_stopped ls)"
  by (simp add: spec_stopped_def List.map_filter_simps)

lemma parsed_non_dict:
  "dict_get v k d = Inl e \<Longrightarrow> parsed_record (Payload (Inr v)) = None"
  by (cases v) auto

text \<open>
  The loop of \<open>answer_stream\<close> is the generation client of the specification: it
  yields the tokens of \<open>spec_tokens\<close> and reaches the end of the stream (and the
  exception waiting there) only when no record carried the terminal marker.
\<close>

lemma qa_consume_refines:
  "qa_consume ls tail = (spec_tokens ls, if spec_stopped ls then None else tail)"
proof (induction ls tail rule: qa_consume.induct)
  case (1 tail)
  then show ?case by (simp add: spec_tokens_def spec_consumed_def spec_stopped_def List.map_filter_simps)
next
  case (2 ls tail)
  then show ?case by (simp add: spec_tokens_def spec_consumed_skip spec_stopped_skip)
next
  case (3 e ls tail)
  then show ?case by (simp add: spec_tokens_def spec_consumed_skip spec_stopped_skip)
next
  case (4 data ls tail)
  show ?case
  proof (cases data)
    case (JDict kvs)
    let ?r = "(case map_of kvs (ascii ''response'') of None \<Rightarrow> JStr [] | Some v \<Rightarrow> v,
           case map_of kvs (ascii ''done'') of None \<Rightarrow> JBool False | Some v \<Rightarrow> v)"
    have p: "parsed_record (Payload (Inr (JDict kvs))) = Some ?r" by simp
    show ?thesis
    proof (cases "truthy (snd ?r)")
      case True
      then show ?thesis using JDict
        by (simp add: spec_tokens_def spec_consumed_record [OF p] spec_stopped_record [OF p])
    next
      case False
      have ih: "qa_consume ls tail = (spec_tokens ls, if spec_stopped ls then None else tail)"
        using "4.IH"(3) [of "fst ?r" "if truthy (fst ?r) then [fst ?r] else []" "snd ?r"] False JDict
        by simp
      show ?thesis using False JDict ih
        by (simp add: spec_tokens_def spec_consumed_record [OF p] spec_stopped_record [OF p])
    qed
  qed (use "4.IH"(1) in \<open>simp_all add: spec_tokens_def spec_consumed_skip spec_stopped_skip\<close>)
qed

lemma chat_consume_json_lines:
  "list_all json_line ls \<Longrightarrow> chat_consume ls tail = qa_consume ls tail"
proof (induction ls tail rule: chat_consume.induct)
  case (4 data ls tail)
  then show ?case by (cases data) (auto simp add: Let_def)
qed auto

text \<open>
  The loop of \<open>chat_stream\<close> does the same on every stream whose lines are empty,
  malformed JSON or JSON objects.
\<close>

lemma chat_consume_refines:
  assumes "list_all json_line ls"
  shows "chat_consume ls tail = (spec_tokens ls, if spec_stopped ls then None else tail)"
  using chat_consume_json_lines [OF assms] qa_consume_refines by simp

lemma chat_consume_refines_paris:
  "list_all json_line paris_lines
   \<and> chat_consume paris_lines None
       = ([JStr (ascii ''Paris''), JStr (ascii '' is''), JStr (ascii '' the''),
           JStr (ascii '' capital''), JStr (ascii ''.'')], None)
   \<and> spec_tokens paris_lines
       = [JStr (ascii ''Paris''), JStr (ascii '' is''), JStr (ascii '' the''),
          JStr (ascii '' capital''), JStr (ascii ''.'')]"
proof -
  have a: "list_all json_line paris_lines"
    by (simp add: paris_lines_def token_record_def)
  from chat_consume_refines [OF a, of None] paris_consume a show ?thesis by simp
qed

lemma qa_messages_distinct:
  "qa_connect_message \<noteq> qa_timeout_message
   \<and> qa_status_message code body \<noteq> qa_connect_message
   \<and> qa_status_message code body \<noteq> qa_timeout_message"
  by (simp add: qa_connect_message_def qa_timeout_message_def qa_status_message_def ascii_def)

lemma chat_messages_distinct:
  "chat_connect_message \<noteq> chat_timeout_message
   \<and> chat_error_prefix @ str_int code \<noteq> chat_connect_message
   \<and> chat_error_prefix @ str_int code \<noteq> chat_timeout_message"
  by (simp add: chat_connect_message_def chat_timeout_message_def chat_error_prefix_def ascii_def)

text \<open>
  The failures of the backend as \<open>answer_stream\<close> reports them: one message and
  nothing after it, a different message for a connection failure, a timeout and a status
  code, the last with the code and the body.
\<close>

lemma answer_stream_failure_messages:
  assumes "retrieve retr question = Inr docs" and "docs \<noteq> []"
      and "prompt = qa_prompt (str_join ([10, 10] @ ascii ''---'' @ [10, 10]) docs) question"
  shows "(post (qa_request mdl prompt) = Inl e \<longrightarrow>
            answer_stream post retr mdl question = [JStr (qa_except e)])
         \<and> (post (qa_request mdl prompt) = Inr resp \<and> status_code resp \<noteq> 200 \<longrightarrow>
              answer_stream post retr mdl question
                = [JStr (qa_status_message (status_code resp) (body_text resp))])
         \<and> (is_Timeout e \<longrightarrow> qa_except e = qa_timeout_message)
         \<and> (is_ConnectionError e \<and> \<not> is_Timeout e \<longrightarrow> qa_except e = qa_connect_message)
         \<and> qa_connect_message \<noteq> qa_timeout_message
         \<and> qa_status_message code body \<noteq> qa_connect_message
         \<and> qa_status_message code body \<noteq> qa_timeout_message
         \<and> sublist (str_int code) (qa_status_message code body)
         \<and> sublist body (qa_status_message code body)"
proof -
  have 1: "post (qa_request mdl prompt) = Inl e \<longrightarrow>
            answer_stream post retr mdl question = [JStr (qa_except e)]"
    using assms by (simp add: answer_stream_def Let_def)
  have 2: "post (qa_request mdl prompt) = Inr resp \<and> status_code resp \<noteq> 200 \<longrightarrow>
              answer_stream post retr mdl question
                = [JStr (qa_status_message (status_code resp) (body_text resp))]"
    using assms by (simp add: answer_stream_def Let_def)
  have 3: "(is_Timeout e \<longrightarrow> qa_except e = qa_timeout_message)
         \<and> (is_ConnectionError e \<and> \<not> is_Timeout e \<longrightarrow> qa_except e = qa_connect_message)"
    by (simp add: qa_except_def)
  have 4: "sublist (str_int code) (qa_status_message code body)"
    unfolding qa_status_message_def by (metis append.assoc sublist_appendI)
  have 5: "sublist body (qa_status_message code body)"
    unfolding qa_status_message_def by (metis append.assoc sublist_append_leftI)
  from 1 2 3 4 5 qa_messages_distinct [of code body] show ?thesis by blast
qed

text \<open>
  The same for \<open>chat_stream\<close> on a cache miss; its status message holds the code
  only.
\<close>

lemma chat_stream_failure_messages:
  assumes "get_cache_key (str_lower w) (pdf_context s) q = Inr key"
      and "response_cache s key = None"
  shows "(requests_post w (chat_request s q) = Inl e \<longrightarrow>
            chat_stream w s q = \<lparr>yielded = [JStr (chat_except e)], raised = None, final = s\<rparr>)
         \<and> (requests_post w (chat_request s q) = Inr resp \<and> status_code resp \<noteq> 200 \<longrightarrow>
              chat_stream w s q
                = \<lparr>yielded = [JStr (chat_error_prefix @ str_int (status_code resp))],
                   raised = None, final = s\<rparr>)
         \<and> (is_ConnectionError e \<longrightarrow> chat_except e = chat_connect_message)
         \<and> (is_Timeout e \<and> \<not> is_ConnectionError e \<longrightarrow> chat_except e = chat_timeout_message)
         \<and> chat_connect_message \<noteq> chat_timeout_message
         \<and> chat_error_prefix @ str_int code \<noteq> chat_connect_message
         \<and> chat_error_prefix @ str_int code \<noteq> chat_timeout_message"
proof -
  have 1: "requests_post w (chat_request s q) = Inl e \<longrightarrow>
            chat_stream w s q = \<lparr>yielded = [JStr (chat_except e)], raised = None, final = s\<rparr>"
    using assms by (simp add: chat_stream_def)
  have 2: "requests_post w (chat_request s q) = Inr resp \<and> status_code resp \<noteq> 200 \<longrightarrow>
              chat_stream w s q
                = \<lparr>yielded = [JStr (chat_error_prefix @ str_int (status_code resp))],
                   raised = None, final = s\<rparr>"
    using assms by (simp add: chat_stream_def)
  have 3: "(is_ConnectionError e \<longrightarrow> chat_except e = chat_connect_message)
         \<and> (is_Timeout e \<and> \<not> is_ConnectionError e \<longrightarrow> chat_except e = chat_timeout_message)"
    by (simp add: chat_except_def)
  from 1 2 3 chat_messages_distinct [of code] show ?thesis by blast
qed

end
